theory Spec2Isabelle
  imports Main
begin

section \<open>Values\<close>

text \<open>
  The values that travel through the MCP endpoint are what \<^verbatim>\<open>request.json()\<close> yields and
  what the handlers build: \<^verbatim>\<open>None\<close>, booleans, integers, strings, lists and string-keyed
  dictionaries. A dictionary is an association list read with \<open>map_of\<close>. Floating-point
  numbers are left out of the model.
\<close>

datatype pyval =
    PNone
  | PBool bool
  | PInt int
  | PStr string
  | PList "pyval list"
  | PDict "(string \<times> pyval) list"

type_synonym pydict = "(string \<times> pyval) list"

text \<open>Python truthiness, as \<^verbatim>\<open>not x\<close> and \<^verbatim>\<open>x or y\<close> test it.\<close>

fun truthy :: "pyval \<Rightarrow> bool" where
  "truthy PNone = False"
| "truthy (PBool b) = b"
| "truthy (PInt i) = (i \<noteq> 0)"
| "truthy (PStr s) = (s \<noteq> [])"
| "truthy (PList xs) = (xs \<noteq> [])"
| "truthy (PDict kvs) = (kvs \<noteq> [])"

text \<open>\<^verbatim>\<open>d.get(k)\<close> and \<^verbatim>\<open>d.get(k, default)\<close>.\<close>

definition dict_get :: "pydict \<Rightarrow> string \<Rightarrow> pyval \<Rightarrow> pyval" where
  "dict_get d k dflt = (case map_of d k of None \<Rightarrow> dflt | Some v \<Rightarrow> v)"

section \<open>Scope matching\<close>

text \<open>\<^verbatim>\<open>s.split(sep)\<close> for a one-character separator.\<close>

fun split :: "char \<Rightarrow> string \<Rightarrow> string list" where
  "split c [] = [[]]"
| "split c (x # xs) =
     (if x = c then [] # split c xs
      else (case split c xs of
              [] \<Rightarrow> [[x]]
            | w # ws \<Rightarrow> (x # w) # ws))"

text \<open>
  \<^verbatim>\<open>MCPHandler._has_scope\<close>, with the token's scopes as its first argument
  (\<^verbatim>\<open>self._token_info.scopes\<close>). \<^verbatim>\<open>required_scope.split(":")[0]\<close> is the head of the split,
  which is never the empty list (\<open>split_not_Nil\<close> below).
\<close>

definition has_scope :: "string list \<Rightarrow> string \<Rightarrow> bool" where
  "has_scope scopes required_scope =
     (if ''*'' \<in> set scopes then True
      else if required_scope \<in> set scopes then True
      else if CHR '':'' \<in> set required_scope
              \<and> (hd (split CHR '':'' required_scope) @ '':*'') \<in> set scopes then True
      else False)"

text \<open>The spec's wording of the matcher: the part of the string before its first colon.\<close>

definition prefix_before_colon :: "string \<Rightarrow> string" where
  "prefix_before_colon s = takeWhile (\<lambda>x. x \<noteq> CHR '':'') s"

section \<open>JSON-RPC envelopes\<close>

definition JSONRPC_PARSE_ERROR :: int where "JSONRPC_PARSE_ERROR = - 32700"
definition JSONRPC_INVALID_REQUEST :: int where "JSONRPC_INVALID_REQUEST = - 32600"
definition JSONRPC_METHOD_NOT_FOUND :: int where "JSONRPC_METHOD_NOT_FOUND = - 32601"
definition JSONRPC_INVALID_PARAMS :: int where "JSONRPC_INVALID_PARAMS = - 32602"
definition JSONRPC_INTERNAL_ERROR :: int where "JSONRPC_INTERNAL_ERROR = - 32603"
definition MCP_AUTH_FAILED :: int where "MCP_AUTH_FAILED = - 32001"
definition MCP_AUTH_MISSING_SCOPE :: int where "MCP_AUTH_MISSING_SCOPE = - 32002"

text \<open>The request identifier, \<^verbatim>\<open>Optional[Union[str, int]]\<close>.\<close>

datatype rpc_id = IdStr string | IdInt int

record JSONRPCRequest =
  req_jsonrpc :: string
  req_method :: string
  req_params :: "pydict option"
  req_id :: "rpc_id option"

record JSONRPCError =
  err_code :: int
  err_message :: string
  err_data :: pyval

text \<open>
  \<^verbatim>\<open>result: Optional[Any] = None\<close>: the field holds any value and \<open>PNone\<close> is the value of a
  field that is not set. \<^verbatim>\<open>error\<close> is an optional \<^verbatim>\<open>JSONRPCError\<close>.
\<close>

record JSONRPCResponse =
  resp_jsonrpc :: string
  resp_result :: pyval
  resp_error :: "JSONRPCError option"
  resp_id :: "rpc_id option"

definition make_error_response ::
  "int \<Rightarrow> string \<Rightarrow> pyval \<Rightarrow> rpc_id option \<Rightarrow> JSONRPCResponse" where
  "make_error_response code message data request_id =
     \<lparr>resp_jsonrpc = ''2.0'', resp_result = PNone,
      resp_error = Some \<lparr>err_code = code, err_message = message, err_data = data\<rparr>,
      resp_id = request_id\<rparr>"

definition make_success_response :: "pyval \<Rightarrow> rpc_id option \<Rightarrow> JSONRPCResponse" where
  "make_success_response result request_id =
     \<lparr>resp_jsonrpc = ''2.0'', resp_result = result, resp_error = None, resp_id = request_id\<rparr>"

text \<open>\<^verbatim>\<open>model_dump()\<close>: the envelope as a dictionary, one key per declared field.\<close>

definition dump_id :: "rpc_id option \<Rightarrow> pyval" where
  "dump_id i = (case i of None \<Rightarrow> PNone | Some (IdStr s) \<Rightarrow> PStr s | Some (IdInt n) \<Rightarrow> PInt n)"

definition dump_error :: "JSONRPCError option \<Rightarrow> pyval" where
  "dump_error e =
     (case e of
        None \<Rightarrow> PNone
      | Some x \<Rightarrow> PDict [(''code'', PInt (err_code x)), (''message'', PStr (err_message x)),
                          (''data'', err_data x)])"

definition model_dump :: "JSONRPCResponse \<Rightarrow> pyval" where
  "model_dump r =
     PDict [(''jsonrpc'', PStr (resp_jsonrpc r)), (''result'', resp_result r),
            (''error'', dump_error (resp_error r)), (''id'', dump_id (resp_id r))]"

section \<open>Exceptions and collaborators\<close>

text \<open>
  What a \<^verbatim>\<open>raise\<close> carries. \<open>MCPError\<close> is the class of the source, with its code, message and
  data. \<open>Exception\<close> stands for every other instance of Python's \<^verbatim>\<open>Exception\<close>, carrying the text
  that \<^verbatim>\<open>str(e)\<close> gives. \<^verbatim>\<open>MCPError.__init__\<close> passes its message to \<^verbatim>\<open>Exception.__init__\<close>, so
  the text of an \<open>MCPError\<close> is its message. These are the exceptions that the source's
  \<^verbatim>\<open>except Exception\<close> clauses catch, and the ones the collaborators of the handlers below
  raise; what the dispatcher does with any other raised object is \<open>handle_raising\<close>.
\<close>

datatype exn = MCPError int string pyval | Exception string

fun str_exn :: "exn \<Rightarrow> string" where
  "str_exn (MCPError code message data) = message"
| "str_exn (Exception s) = s"

text \<open>Objects the endpoint only passes along: the database session, the settings, the managers.\<close>

datatype obj = Obj string

record app_state =
  workspace_client :: "obj option"
  data_products_manager :: "obj option"
  data_contracts_manager :: "obj option"
  semantic_models_manager :: "obj option"
  search_manager :: "obj option"

record ToolContext =
  ctx_db :: obj
  ctx_settings :: obj
  ctx_workspace_client :: "obj option"
  ctx_data_products_manager :: "obj option"
  ctx_data_contracts_manager :: "obj option"
  ctx_semantic_models_manager :: "obj option"
  ctx_costs_manager :: "obj option"
  ctx_search_manager :: "obj option"

text \<open>
  \<^verbatim>\<open>ToolResult\<close>, the tools and the registry come from modules outside this file; they are
  taken as the interface the handler uses. A tool either declares \<^verbatim>\<open>required_scope\<close> or has
  no such attribute (\<open>None\<close>). \<^verbatim>\<open>execute\<close> stands for the whole call
  \<^verbatim>\<open>await tool.execute(ctx, **tool_args)\<close>, the unpacking of the arguments included: it returns
  a \<^verbatim>\<open>ToolResult\<close> or raises. The registry calls sit inside the dispatcher's
  \<^verbatim>\<open>try\<close>, so they may raise as well.
\<close>

record ToolResult =
  success :: bool
  data :: pyval
  error :: "string option"

record Tool =
  required_scope :: "string option"
  execute :: "ToolContext \<Rightarrow> pyval \<Rightarrow> exn + ToolResult"

record ToolRegistry =
  get_mcp_definitions :: "exn + pydict list"
  get :: "pyval \<Rightarrow> exn + Tool option"

record MCPTokenInfo =
  token_name :: string
  scopes :: "string list"

text \<open>
  What the Python runtime contributes: the clock read by \<^verbatim>\<open>datetime.utcnow().isoformat()\<close>,
  \<^verbatim>\<open>json.dumps(x, default=str)\<close> (which may raise), and the text an f-string gives for a value
  that is not a string.
\<close>

record runtime =
  utcnow_isoformat :: string
  json_dumps :: "pyval \<Rightarrow> exn + string"
  str_other :: "pyval \<Rightarrow> string"

definition format_value :: "runtime \<Rightarrow> pyval \<Rightarrow> string" where
  "format_value rt v = (case v of PStr s \<Rightarrow> s | _ \<Rightarrow> str_other rt v)"

text \<open>The fields of an \<^verbatim>\<open>MCPHandler\<close>; \<open>h_app_state\<close> is \<^verbatim>\<open>self._request.app.state\<close>.\<close>

record MCPHandler =
  h_db :: obj
  h_settings :: obj
  h_token_info :: MCPTokenInfo
  h_app_state :: app_state
  h_tool_registry :: ToolRegistry
  h_runtime :: runtime

text \<open>
  The calls a request makes on its collaborators, in the order they happen. Every handler
  returns this trace with its outcome.
\<close>

datatype event =
    Get_mcp_definitions
  | Registry_get pyval
  | Scope_check string
  | Create_tool_context
  | Tool_execute pyval pyval
  | Validate_token string
  | Db_commit
  | Db_rollback

type_synonym 'a outcome = "event list \<times> (exn + 'a)"

definition after :: "event list \<Rightarrow> 'a outcome \<Rightarrow> 'a outcome" where
  "after tr r = (tr @ fst r, snd r)"

section \<open>Method handlers\<close>

definition handle_initialize :: "MCPHandler \<Rightarrow> pydict \<Rightarrow> pyval outcome" where
  "handle_initialize self params =
     ([], Inr (PDict [(''protocolVersion'', PStr ''2024-11-05''),
                      (''serverInfo'', PDict [(''name'', PStr ''ontos-mcp-server''),
                                              (''version'', PStr ''1.0.0'')]),
                      (''capabilities'', PDict [(''tools'', PDict [])])]))"

definition handle_initialized :: "MCPHandler \<Rightarrow> pydict \<Rightarrow> pyval outcome" where
  "handle_initialized self params = ([], Inr (PDict []))"

definition handle_ping :: "MCPHandler \<Rightarrow> pydict \<Rightarrow> pyval outcome" where
  "handle_ping self params =
     ([], Inr (PDict [(''pong'', PBool True),
                      (''timestamp'', PStr (utcnow_isoformat (h_runtime self)))]))"

text \<open>\<^verbatim>\<open>getattr(tool, "required_scope", "*")\<close>.\<close>

definition getattr_required_scope :: "Tool \<Rightarrow> string" where
  "getattr_required_scope tool = (case required_scope tool of None \<Rightarrow> ''*'' | Some s \<Rightarrow> s)"

text \<open>
  The loop of \<^verbatim>\<open>_handle_tools_list\<close> over the definitions still to visit, with the list
  filtered so far. \<^verbatim>\<open>tool_def["name"]\<close> raises \<^verbatim>\<open>KeyError\<close> on a definition without a name; the
  text of that error is the key in quotes.
\<close>

definition key_error_name :: exn where
  "key_error_name = Exception ([CHR 0x27] @ ''name'' @ [CHR 0x27])"

fun filter_tools :: "MCPHandler \<Rightarrow> pydict list \<Rightarrow> pydict list \<Rightarrow> (pydict list) outcome" where
  "filter_tools self [] filtered_tools = ([], Inr filtered_tools)"
| "filter_tools self (tool_def # rest) filtered_tools =
     (case map_of tool_def ''name'' of
        None \<Rightarrow> ([], Inl key_error_name)
      | Some nm \<Rightarrow>
          (case get (h_tool_registry self) nm of
             Inl e \<Rightarrow> ([Registry_get nm], Inl e)
           | Inr None \<Rightarrow> after [Registry_get nm] (filter_tools self rest filtered_tools)
           | Inr (Some tool) \<Rightarrow>
               (let required_scope = getattr_required_scope tool
                in if has_scope (scopes (h_token_info self)) required_scope
                   then after [Registry_get nm, Scope_check required_scope]
                          (filter_tools self rest (filtered_tools @ [tool_def]))
                   else after [Registry_get nm, Scope_check required_scope]
                          (filter_tools self rest filtered_tools))))"

definition handle_tools_list :: "MCPHandler \<Rightarrow> pydict \<Rightarrow> pyval outcome" where
  "handle_tools_list self params =
     (case get_mcp_definitions (h_tool_registry self) of
        Inl e \<Rightarrow> ([Get_mcp_definitions], Inl e)
      | Inr all_tools \<Rightarrow>
          (case after [Get_mcp_definitions] (filter_tools self all_tools []) of
             (tr, Inl e) \<Rightarrow> (tr, Inl e)
           | (tr, Inr filtered_tools) \<Rightarrow>
               (tr, Inr (PDict [(''tools'', PList (map PDict filtered_tools))]))))"

definition create_tool_context :: "MCPHandler \<Rightarrow> ToolContext" where
  "create_tool_context self =
     (let app = h_app_state self
      in \<lparr>ctx_db = h_db self,
          ctx_settings = h_settings self,
          ctx_workspace_client = workspace_client app,
          ctx_data_products_manager = data_products_manager app,
          ctx_data_contracts_manager = data_contracts_manager app,
          ctx_semantic_models_manager = semantic_models_manager app,
          ctx_costs_manager = None,
          ctx_search_manager = search_manager app\<rparr>)"

text \<open>The payload of a \<^verbatim>\<open>tools/call\<close> result: one text block and the \<^verbatim>\<open>isError\<close> flag.\<close>

definition text_content :: "string \<Rightarrow> bool \<Rightarrow> pyval" where
  "text_content txt is_error =
     PDict [(''content'', PList [PDict [(''type'', PStr ''text''), (''text'', PStr txt)]]),
            (''isError'', PBool is_error)]"

text \<open>
  The body of the \<^verbatim>\<open>try\<close> in \<^verbatim>\<open>_handle_tools_call\<close> with its \<^verbatim>\<open>except Exception\<close>: the call of the
  tool, the formatting of its result, and the payload built when either raises.
\<close>

definition execute_tool :: "MCPHandler \<Rightarrow> Tool \<Rightarrow> ToolContext \<Rightarrow> pyval \<Rightarrow> pyval" where
  "execute_tool self tool ctx tool_args =
     (case execute tool ctx tool_args of
        Inl e \<Rightarrow> text_content (''Tool execution failed: '' @ str_exn e) True
      | Inr result \<Rightarrow>
          if success result
          then (case json_dumps (h_runtime self) (data result) of
                  Inl e \<Rightarrow> text_content (''Tool execution failed: '' @ str_exn e) True
                | Inr txt \<Rightarrow> text_content txt False)
          else text_content
                 (case error result of
                    None \<Rightarrow> ''Unknown error''
                  | Some msg \<Rightarrow> if msg = [] then ''Unknown error'' else msg)
                 True)"

definition handle_tools_call :: "MCPHandler \<Rightarrow> pydict \<Rightarrow> pyval outcome" where
  "handle_tools_call self params =
     (let tool_name = dict_get params ''name'' PNone;
          tool_args = dict_get params ''arguments'' (PDict [])
      in if \<not> truthy tool_name
         then ([], Inl (MCPError JSONRPC_INVALID_PARAMS ''Missing tool name'' PNone))
         else
           (case get (h_tool_registry self) tool_name of
              Inl e \<Rightarrow> ([Registry_get tool_name], Inl e)
            | Inr None \<Rightarrow>
                ([Registry_get tool_name],
                 Inl (MCPError JSONRPC_METHOD_NOT_FOUND
                        (''Tool not found: '' @ format_value (h_runtime self) tool_name) PNone))
            | Inr (Some tool) \<Rightarrow>
                (let required_scope = getattr_required_scope tool
                 in if \<not> has_scope (scopes (h_token_info self)) required_scope
                    then ([Registry_get tool_name, Scope_check required_scope],
                          Inl (MCPError MCP_AUTH_MISSING_SCOPE
                                 (''Missing required scope: '' @ required_scope)
                                 (PDict [(''required_scope'', PStr required_scope),
                                         (''token_scopes'',
                                          PList (map PStr (scopes (h_token_info self))))])))
                    else
                      (let ctx = create_tool_context self
                       in ([Registry_get tool_name, Scope_check required_scope,
                            Create_tool_context, Tool_execute tool_name tool_args],
                           Inr (execute_tool self tool ctx tool_args))))))"

section \<open>The dispatcher\<close>

definition handlers :: "string \<Rightarrow> (MCPHandler \<Rightarrow> pydict \<Rightarrow> pyval outcome) option" where
  "handlers =
     map_of [(''initialize'', handle_initialize),
             (''notifications/initialized'', handle_initialized),
             (''ping'', handle_ping),
             (''tools/list'', handle_tools_list),
             (''tools/call'', handle_tools_call)]"

text \<open>
  \<^verbatim>\<open>MCPHandler.handle\<close>. The \<^verbatim>\<open>try\<close> around the handler is the case distinction on its
  outcome: a returned value, an \<open>MCPError\<close>, or any other exception.
\<close>

definition handle :: "MCPHandler \<Rightarrow> JSONRPCRequest \<Rightarrow> event list \<times> JSONRPCResponse" where
  "handle self rpc_request =
     (let method = req_method rpc_request;
          params = (case req_params rpc_request of
                      None \<Rightarrow> []
                    | Some p \<Rightarrow> if p = [] then [] else p);
          request_id = req_id rpc_request
      in case handlers method of
           None \<Rightarrow>
             ([], make_error_response JSONRPC_METHOD_NOT_FOUND
                    (''Method not found: '' @ method) PNone request_id)
         | Some handler \<Rightarrow>
             (case handler self params of
                (tr, Inr result) \<Rightarrow> (tr, make_success_response result request_id)
              | (tr, Inl (MCPError code message payload)) \<Rightarrow>
                  (tr, make_error_response code message payload request_id)
              | (tr, Inl (Exception s)) \<Rightarrow>
                  (tr, make_error_response JSONRPC_INTERNAL_ERROR
                         (''Internal error: '' @ str_exn (Exception s)) PNone request_id)))"

section \<open>The request pipeline\<close>

text \<open>
  What one POST brings to \<^verbatim>\<open>mcp_handler\<close>: the \<^verbatim>\<open>X-API-Key\<close> header, the token manager's
  \<^verbatim>\<open>validate_token\<close>, the outcome of \<^verbatim>\<open>await request.json()\<close>, the construction
  \<^verbatim>\<open>JSONRPCRequest(**body)\<close>, the dependencies handed to the \<^verbatim>\<open>MCPHandler\<close>, the registry
  that \<^verbatim>\<open>create_default_registry()\<close> builds, and whether \<^verbatim>\<open>db.commit()\<close> raises.
\<close>

record http_request =
  x_api_key :: "string option"
  validate_token :: "string \<Rightarrow> MCPTokenInfo option"
  request_json :: "exn + pyval"
  validate_request :: "pyval \<Rightarrow> exn + JSONRPCRequest"
  db :: obj
  settings :: obj
  state :: app_state
  create_default_registry :: ToolRegistry
  rt :: runtime
  db_commit :: "exn option"

definition mcp_handler :: "http_request \<Rightarrow> event list \<times> pyval" where
  "mcp_handler request =
     (let missing_key =
            ([], model_dump \<lparr>resp_jsonrpc = ''2.0'', resp_result = PNone,
                   resp_error = Some \<lparr>err_code = MCP_AUTH_FAILED,
                                       err_message = ''Missing X-API-Key header'',
                                       err_data = PNone\<rparr>,
                   resp_id = None\<rparr>)
      in case x_api_key request of
           None \<Rightarrow> missing_key
         | Some key \<Rightarrow>
             if key = [] then missing_key
             else
               (case validate_token request key of
                  None \<Rightarrow>
                    ([Validate_token key],
                     model_dump \<lparr>resp_jsonrpc = ''2.0'', resp_result = PNone,
                       resp_error = Some \<lparr>err_code = MCP_AUTH_FAILED,
                                           err_message = ''Invalid or expired API key'',
                                           err_data = PNone\<rparr>,
                       resp_id = None\<rparr>)
                | Some token_info \<Rightarrow>
                    (case request_json request of
                       Inl e \<Rightarrow>
                         ([Validate_token key],
                          model_dump \<lparr>resp_jsonrpc = ''2.0'', resp_result = PNone,
                            resp_error =
                              Some \<lparr>err_code = JSONRPC_PARSE_ERROR,
                                    err_message = ''Failed to parse JSON: '' @ str_exn e,
                                    err_data = PNone\<rparr>,
                            resp_id = None\<rparr>)
                     | Inr body \<Rightarrow>
                         (case validate_request request body of
                            Inl e \<Rightarrow>
                              ([Validate_token key],
                               model_dump \<lparr>resp_jsonrpc = ''2.0'', resp_result = PNone,
                                 resp_error =
                                   Some \<lparr>err_code = JSONRPC_INVALID_REQUEST,
                                         err_message = ''Invalid request: '' @ str_exn e,
                                         err_data = PNone\<rparr>,
                                 resp_id = None\<rparr>)
                          | Inr rpc_request \<Rightarrow>
                              (let handler =
                                     \<lparr>h_db = db request, h_settings = settings request,
                                      h_token_info = token_info,
                                      h_app_state = state request,
                                      h_tool_registry = create_default_registry request,
                                      h_runtime = rt request\<rparr>;
                                   r = handle handler rpc_request
                               in (Validate_token key # fst r
                                     @ (case db_commit request of
                                          None \<Rightarrow> [Db_commit]
                                        | Some e \<Rightarrow> [Db_commit, Db_rollback]),
                                   model_dump (snd r)))))))"

section \<open>The request shape\<close>

text \<open>
  \<^verbatim>\<open>JSONRPCRequest(**body)\<close>, from the fields the class declares: \<^verbatim>\<open>jsonrpc\<close> a string with
  default \<^verbatim>\<open>"2.0"\<close>, \<^verbatim>\<open>method\<close> a required string, \<^verbatim>\<open>params\<close> an optional dictionary, \<^verbatim>\<open>id\<close> an
  optional string or integer (a boolean is taken as the integer it is); keys the class does
  not declare are ignored, and a body that is not a dictionary cannot be unpacked. The
  pipeline takes the construction as a parameter; this function is the instance used on
  concrete requests. The text of the exceptions is shortened to the field and the reason.
\<close>

definition validation_error :: "string \<Rightarrow> string \<Rightarrow> exn" where
  "validation_error field reason =
     Exception (''1 validation error for JSONRPCRequest: '' @ field @ '': '' @ reason)"

definition field_jsonrpc :: "pydict \<Rightarrow> exn + string" where
  "field_jsonrpc kvs =
     (case map_of kvs ''jsonrpc'' of
        None \<Rightarrow> Inr ''2.0''
      | Some (PStr s) \<Rightarrow> Inr s
      | Some _ \<Rightarrow> Inl (validation_error ''jsonrpc'' ''Input should be a valid string''))"

definition field_method :: "pydict \<Rightarrow> exn + string" where
  "field_method kvs =
     (case map_of kvs ''method'' of
        None \<Rightarrow> Inl (validation_error ''method'' ''Field required'')
      | Some (PStr s) \<Rightarrow> Inr s
      | Some _ \<Rightarrow> Inl (validation_error ''method'' ''Input should be a valid string''))"

definition field_params :: "pydict \<Rightarrow> exn + pydict option" where
  "field_params kvs =
     (case map_of kvs ''params'' of
        None \<Rightarrow> Inr None
      | Some PNone \<Rightarrow> Inr None
      | Some (PDict d) \<Rightarrow> Inr (Some d)
      | Some _ \<Rightarrow> Inl (validation_error ''params'' ''Input should be a valid dictionary''))"

definition field_id :: "pydict \<Rightarrow> exn + rpc_id option" where
  "field_id kvs =
     (case map_of kvs ''id'' of
        None \<Rightarrow> Inr None
      | Some PNone \<Rightarrow> Inr None
      | Some (PStr s) \<Rightarrow> Inr (Some (IdStr s))
      | Some (PInt n) \<Rightarrow> Inr (Some (IdInt n))
      | Some (PBool b) \<Rightarrow> Inr (Some (IdInt (if b then 1 else 0)))
      | Some _ \<Rightarrow> Inl (validation_error ''id'' ''Input should be a valid string or integer''))"

definition JSONRPCRequest_init :: "pyval \<Rightarrow> exn + JSONRPCRequest" where
  "JSONRPCRequest_init body =
     (case body of
        PDict kvs \<Rightarrow>
          (case field_jsonrpc kvs of
             Inl e \<Rightarrow> Inl e
           | Inr j \<Rightarrow>
               (case field_method kvs of
                  Inl e \<Rightarrow> Inl e
                | Inr m \<Rightarrow>
                    (case field_params kvs of
                       Inl e \<Rightarrow> Inl e
                     | Inr ps \<Rightarrow>
                         (case field_id kvs of
                            Inl e \<Rightarrow> Inl e
                          | Inr i \<Rightarrow>
                              Inr \<lparr>req_jsonrpc = j, req_method = m, req_params = ps,
                                   req_id = i\<rparr>))))
      | _ \<Rightarrow> Inl (Exception ''argument after ** must be a mapping''))"

section \<open>What the dispatcher's try statement lets through\<close>






section \<open>A concrete deployment\<close>

text \<open>
  Three tools, a registry over them, a token that holds \<^verbatim>\<open>data:read\<close>, and a request; the
  general results below are run on these. \<open>status_tool\<close> declares no required scope.
  \<open>crash_tool\<close> raises when executed. The registry looks names up in a dictionary, so a
  name that is a list or a dictionary raises, being unhashable.
\<close>

definition read_tool :: Tool where
  "read_tool =
     \<lparr>required_scope = Some ''data:read'',
      execute = (\<lambda>ctx args. Inr \<lparr>success = True, data = PDict [], error = None\<rparr>)\<rparr>"

definition status_tool :: Tool where
  "status_tool =
     \<lparr>required_scope = None,
      execute = (\<lambda>ctx args. Inr \<lparr>success = True, data = PDict [], error = None\<rparr>)\<rparr>"

definition crash_tool :: Tool where
  "crash_tool =
     \<lparr>required_scope = Some ''data:read'',
      execute = (\<lambda>ctx args. Inl (Exception ''connection lost''))\<rparr>"

definition example_definitions :: "pydict list" where
  "example_definitions =
     [[(''name'', PStr ''read_products''), (''description'', PStr ''List data products'')],
      [(''name'', PStr ''server_status''), (''description'', PStr ''Report status'')],
      [(''name'', PStr ''crash''), (''description'', PStr ''Always fails'')]]"

definition example_registry :: ToolRegistry where
  "example_registry =
     \<lparr>get_mcp_definitions = Inr example_definitions,
      get = (\<lambda>nm. case nm of
                     PStr s \<Rightarrow>
                       Inr (map_of [(''read_products'', read_tool),
                                    (''server_status'', status_tool),
                                    (''crash'', crash_tool)] s)
                   | PList xs \<Rightarrow> Inl (Exception ''unhashable type: list'')
                   | PDict kvs \<Rightarrow> Inl (Exception ''unhashable type: dict'')
                   | _ \<Rightarrow> Inr None)\<rparr>"

definition example_runtime :: runtime where
  "example_runtime =
     \<lparr>utcnow_isoformat = ''2025-01-01T00:00:00'',
      json_dumps = (\<lambda>v. if v = PDict [] then Inr ''{}'' else Inr ''null''),
      str_other = (\<lambda>v. ''None'')\<rparr>"

definition example_state :: app_state where
  "example_state =
     \<lparr>workspace_client = None, data_products_manager = Some (Obj ''products''),
      data_contracts_manager = None, semantic_models_manager = None,
      search_manager = None\<rparr>"

definition reader_token :: MCPTokenInfo where
  "reader_token = \<lparr>token_name = ''reader'', scopes = [''data:read'']\<rparr>"

definition example_handler :: MCPHandler where
  "example_handler =
     \<lparr>h_db = Obj ''session'', h_settings = Obj ''settings'', h_token_info = reader_token,
      h_app_state = example_state, h_tool_registry = example_registry,
      h_runtime = example_runtime\<rparr>"

definition call_request :: "pydict \<Rightarrow> JSONRPCRequest" where
  "call_request params =
     \<lparr>req_jsonrpc = ''2.0'', req_method = ''tools/call'', req_params = Some params,
      req_id = Some (IdInt 42)\<rparr>"

definition example_request :: "string option \<Rightarrow> pyval \<Rightarrow> http_request" where
  "example_request key body =
     \<lparr>x_api_key = key,
      validate_token = (\<lambda>k. if k = ''mcp_reader_key'' then Some reader_token else None),
      request_json = Inr body,
      validate_request = JSONRPCRequest_init,
      db = Obj ''session'', settings = Obj ''settings'', state = example_state,
      create_default_registry = example_registry, rt = example_runtime,
      db_commit = None\<rparr>"


section \<open>Properties of the scope matcher\<close>

lemma split_not_Nil: "split c s \<noteq> []"
  by (induction s) (auto split: list.splits)

lemma hd_split: "hd (split c s) = takeWhile (\<lambda>x. x \<noteq> c) s"
proof (induction s)
  case Nil
  show ?case by simp
next
  case (Cons x xs)
  show ?case
  proof (cases "x = c")
    case True
    then show ?thesis by simp
  next
    case False
    obtain w ws where sp: "split c xs = w # ws"
      using split_not_Nil [of c xs] by (cases "split c xs") auto
    with Cons False show ?thesis by simp
  qed
qed

lemma takeWhile_data: "takeWhile (\<lambda>x. x \<noteq> CHR '':'') (''data:'' @ rest) = ''data''"
  by simp

text \<open>
  C1. The scope matcher returns true exactly when \<open>*\<close> is granted, or the required scope is
  granted verbatim, or the required scope contains a colon and the part before its first
  colon followed by \<open>:*\<close> is granted. In particular a token granted \<open>data:*\<close> satisfies
  every required scope of the form \<open>data:anything\<close>.
\<close>

theorem has_scope_iff:
  "(has_scope granted required \<longleftrightarrow>
      ''*'' \<in> set granted
      \<or> required \<in> set granted
      \<or> (CHR '':'' \<in> set required
          \<and> prefix_before_colon required @ '':*'' \<in> set granted))
   \<and> (''data:*'' \<in> set granted \<longrightarrow> has_scope granted (''data:'' @ anything))"
proof
  show "has_scope granted required \<longleftrightarrow>
      ''*'' \<in> set granted
      \<or> required \<in> set granted
      \<or> (CHR '':'' \<in> set required
          \<and> prefix_before_colon required @ '':*'' \<in> set granted)"
    by (simp add: has_scope_def prefix_before_colon_def hd_split)
next
  show "''data:*'' \<in> set granted \<longrightarrow> has_scope granted (''data:'' @ anything)"
  proof
    assume g: "''data:*'' \<in> set granted"
    have "hd (split CHR '':'' (''data:'' @ anything)) = ''data''"
      unfolding hd_split by (rule takeWhile_data)
    with g show "has_scope granted (''data:'' @ anything)"
      by (simp add: has_scope_def)
  qed
qed

theorem has_scope_iff_witness:
  "''data:*'' \<in> set [''data:*''] \<and> has_scope [''data:*''] (''data:'' @ ''read'')
   \<and> \<not> has_scope [''data:*''] ''admin:read''"
  using has_scope_iff [of "[''data:*'']" "''admin:read''" "''read''"]
  by (simp add: prefix_before_colon_def)

section \<open>Properties of the handlers\<close>

lemma handlers_simps:
  "handlers ''initialize'' = Some handle_initialize"
  "handlers ''notifications/initialized'' = Some handle_initialized"
  "handlers ''ping'' = Some handle_ping"
  "handlers ''tools/list'' = Some handle_tools_list"
  "handlers ''tools/call'' = Some handle_tools_call"
  by (simp_all add: handlers_def)


lemma handlers_Some_cases:
  assumes "handlers m = Some h"
  shows "h = handle_initialize \<or> h = handle_initialized \<or> h = handle_ping
         \<or> h = handle_tools_list \<or> h = handle_tools_call"
  using assms by (auto simp: handlers_def split: if_splits)

lemma handle_tools_list_result:
  "handle_tools_list self params = (tr, Inr v) \<Longrightarrow> \<exists>d. v = PDict d"
  by (auto simp: handle_tools_list_def split: sum.splits prod.splits)

lemma handle_tools_call_result:
  "handle_tools_call self params = (tr, Inr v) \<Longrightarrow> \<exists>d. v = PDict d"
  by (auto simp: handle_tools_call_def execute_tool_def text_content_def Let_def
           split: sum.splits option.splits if_splits)

lemma handler_result_dict:
  assumes "handlers m = Some h" and "h self params = (tr, Inr v)"
  shows "\<exists>d. v = PDict d"
  using handlers_Some_cases [OF assms(1)] assms(2)
  by (auto simp: handle_initialize_def handle_initialized_def handle_ping_def
           dest: handle_tools_list_result handle_tools_call_result)

lemma handle_id: "resp_id (snd (handle self r)) = req_id r"
  by (auto simp: handle_def Let_def make_error_response_def make_success_response_def
           split: option.splits prod.splits sum.splits exn.splits)

lemma handle_exactly_one:
  "(resp_result (snd (handle self r)) = PNone) \<noteq> (resp_error (snd (handle self r)) = None)"
  by (auto simp: handle_def Let_def make_error_response_def make_success_response_def
           split: option.splits prod.splits sum.splits exn.splits
           dest: handler_result_dict)


lemma handle_tools_call_dispatch:
  assumes "req_method r = ''tools/call''"
  shows "handle self r =
     (case handle_tools_call self (case req_params r of None \<Rightarrow> [] | Some p \<Rightarrow> p) of
        (tr, Inr result) \<Rightarrow> (tr, make_success_response result (req_id r))
      | (tr, Inl (MCPError code message payload)) \<Rightarrow>
          (tr, make_error_response code message payload (req_id r))
      | (tr, Inl (Exception s)) \<Rightarrow>
          (tr, make_error_response (- 32603) (''Internal error: '' @ s) PNone (req_id r)))"
proof -
  have p: "(case req_params r of None \<Rightarrow> [] | Some p \<Rightarrow> if p = [] then [] else p)
           = (case req_params r of None \<Rightarrow> [] | Some p \<Rightarrow> p)"
    by (simp split: option.splits)
  show ?thesis
    unfolding handle_def Let_def p using assms
    by (simp add: handlers_simps JSONRPC_INTERNAL_ERROR_def
             split: prod.splits sum.splits exn.splits)
qed

section \<open>Tool execution failures\<close>





section \<open>Validation of tools/call\<close>

lemma handle_tools_call_missing:
  "\<not> truthy (dict_get params ''name'' PNone) \<Longrightarrow>
   handle_tools_call self params = ([], Inl (MCPError (- 32602) ''Missing tool name'' PNone))"
  by (simp add: handle_tools_call_def Let_def JSONRPC_INVALID_PARAMS_def)

lemma handle_tools_call_not_found:
  "truthy (dict_get params ''name'' PNone) \<Longrightarrow>
   get (h_tool_registry self) (dict_get params ''name'' PNone) = Inr None \<Longrightarrow>
   handle_tools_call self params =
     ([Registry_get (dict_get params ''name'' PNone)],
      Inl (MCPError (- 32601)
             (''Tool not found: '' @ format_value (h_runtime self) (dict_get params ''name'' PNone))
             PNone))"
  by (simp add: handle_tools_call_def Let_def JSONRPC_METHOD_NOT_FOUND_def)


lemma handle_tools_call_scope:
  "truthy (dict_get params ''name'' PNone) \<Longrightarrow>
   get (h_tool_registry self) (dict_get params ''name'' PNone) = Inr (Some tool) \<Longrightarrow>
   \<not> has_scope (scopes (h_token_info self)) (getattr_required_scope tool) \<Longrightarrow>
   handle_tools_call self params =
     ([Registry_get (dict_get params ''name'' PNone), Scope_check (getattr_required_scope tool)],
      Inl (MCPError (- 32002)
             (''Missing required scope: '' @ getattr_required_scope tool)
             (PDict [(''required_scope'', PStr (getattr_required_scope tool)),
                     (''token_scopes'', PList (map PStr (scopes (h_token_info self))))])))"
  by (simp add: handle_tools_call_def Let_def MCP_AUTH_MISSING_SCOPE_def)

lemma handle_tools_call_run:
  "truthy (dict_get params ''name'' PNone) \<Longrightarrow>
   get (h_tool_registry self) (dict_get params ''name'' PNone) = Inr (Some tool) \<Longrightarrow>
   has_scope (scopes (h_token_info self)) (getattr_required_scope tool) \<Longrightarrow>
   handle_tools_call self params =
     ([Registry_get (dict_get params ''name'' PNone), Scope_check (getattr_required_scope tool),
       Create_tool_context,
       Tool_execute (dict_get params ''name'' PNone) (dict_get params ''arguments'' (PDict []))],
      Inr (execute_tool self tool (create_tool_context self)
             (dict_get params ''arguments'' (PDict []))))"
  by (simp add: handle_tools_call_def Let_def)

lemma handle_tools_call_trace:
  "(Create_tool_context \<in> set (fst (handle_tools_call self params))
      \<or> (\<exists>a b. Tool_execute a b \<in> set (fst (handle_tools_call self params))))
   \<longleftrightarrow> truthy (dict_get params ''name'' PNone)
        \<and> (\<exists>tool. get (h_tool_registry self) (dict_get params ''name'' PNone) = Inr (Some tool)
                   \<and> has_scope (scopes (h_token_info self)) (getattr_required_scope tool))"
  by (auto simp: handle_tools_call_def Let_def split: sum.splits option.splits if_splits)

lemma fst_handle_tools_call:
  "req_method r = ''tools/call'' \<Longrightarrow>
   fst (handle self r) =
     fst (handle_tools_call self (case req_params r of None \<Rightarrow> [] | Some p \<Rightarrow> p))"
  by (simp add: handle_tools_call_dispatch split: prod.splits sum.splits exn.splits)

text \<open>
  C5. A \<^verbatim>\<open>tools/call\<close> request is validated in order. Without a \<^verbatim>\<open>name\<close> parameter the answer
  is code -32602 and no collaborator has been called. With a name the registry does not know
  the answer is code -32601 after the lookup alone. With a known tool whose scope the token
  lacks the answer is code -32002, whose data holds the required scope and the token's scopes,
  after the lookup and the scope check. The context is built and the tool executed only when
  all three checks have passed, and then after them.
\<close>

theorem tools_call_validation_order:
  assumes m: "req_method r = ''tools/call''"
    and p: "params = (case req_params r of None \<Rightarrow> [] | Some p \<Rightarrow> p)"
    and n: "tool_name = dict_get params ''name'' PNone"
    and a: "tool_args = dict_get params ''arguments'' (PDict [])"
    and g: "granted = scopes (h_token_info self)"
  shows
    "(map_of params ''name'' = None \<longrightarrow>
        handle self r =
          ([], make_error_response (- 32602) ''Missing tool name'' PNone (req_id r)))
     \<and> (truthy tool_name \<and> get (h_tool_registry self) tool_name = Inr None \<longrightarrow>
          handle self r =
            ([Registry_get tool_name],
             make_error_response (- 32601)
               (''Tool not found: '' @ format_value (h_runtime self) tool_name) PNone (req_id r)))
     \<and> (\<forall>tool. truthy tool_name \<and> get (h_tool_registry self) tool_name = Inr (Some tool)
                 \<and> \<not> has_scope granted (getattr_required_scope tool) \<longrightarrow>
          handle self r =
            ([Registry_get tool_name, Scope_check (getattr_required_scope tool)],
             make_error_response (- 32002)
               (''Missing required scope: '' @ getattr_required_scope tool)
               (PDict [(''required_scope'', PStr (getattr_required_scope tool)),
                       (''token_scopes'', PList (map PStr granted))])
               (req_id r)))
     \<and> (\<forall>tool. truthy tool_name \<and> get (h_tool_registry self) tool_name = Inr (Some tool)
                 \<and> has_scope granted (getattr_required_scope tool) \<longrightarrow>
          fst (handle self r) =
            [Registry_get tool_name, Scope_check (getattr_required_scope tool),
             Create_tool_context, Tool_execute tool_name tool_args])
     \<and> (Create_tool_context \<in> set (fst (handle self r))
          \<or> (\<exists>x y. Tool_execute x y \<in> set (fst (handle self r)))
        \<longrightarrow> truthy tool_name
            \<and> (\<exists>tool. get (h_tool_registry self) tool_name = Inr (Some tool)
                       \<and> has_scope granted (getattr_required_scope tool)))"
proof (intro conjI allI impI)
  assume "map_of params ''name'' = None"
  then have "\<not> truthy (dict_get params ''name'' PNone)"
    by (simp add: dict_get_def)
  from handle_tools_call_missing [OF this, of self]
  show "handle self r =
          ([], make_error_response (- 32602) ''Missing tool name'' PNone (req_id r))"
    using m p by (simp add: handle_tools_call_dispatch)
next
  assume "truthy tool_name \<and> get (h_tool_registry self) tool_name = Inr None"
  then have "truthy (dict_get params ''name'' PNone)"
    and "get (h_tool_registry self) (dict_get params ''name'' PNone) = Inr None"
    using n by simp_all
  from handle_tools_call_not_found [OF this]
  show "handle self r =
          ([Registry_get tool_name],
           make_error_response (- 32601)
             (''Tool not found: '' @ format_value (h_runtime self) tool_name) PNone (req_id r))"
    using m p n by (simp add: handle_tools_call_dispatch)
next
  fix tool
  assume "truthy tool_name \<and> get (h_tool_registry self) tool_name = Inr (Some tool)
            \<and> \<not> has_scope granted (getattr_required_scope tool)"
  then have "truthy (dict_get params ''name'' PNone)"
    and "get (h_tool_registry self) (dict_get params ''name'' PNone) = Inr (Some tool)"
    and "\<not> has_scope (scopes (h_token_info self)) (getattr_required_scope tool)"
    using n g by simp_all
  from handle_tools_call_scope [OF this]
  show "handle self r =
          ([Registry_get tool_name, Scope_check (getattr_required_scope tool)],
           make_error_response (- 32002)
             (''Missing required scope: '' @ getattr_required_scope tool)
             (PDict [(''required_scope'', PStr (getattr_required_scope tool)),
                     (''token_scopes'', PList (map PStr granted))])
             (req_id r))"
    using m p n g by (simp add: handle_tools_call_dispatch)
next
  fix tool
  assume "truthy tool_name \<and> get (h_tool_registry self) tool_name = Inr (Some tool)
            \<and> has_scope granted (getattr_required_scope tool)"
  then have "truthy (dict_get params ''name'' PNone)"
    and "get (h_tool_registry self) (dict_get params ''name'' PNone) = Inr (Some tool)"
    and "has_scope (scopes (h_token_info self)) (getattr_required_scope tool)"
    using n g by simp_all
  from handle_tools_call_run [OF this]
  show "fst (handle self r) =
          [Registry_get tool_name, Scope_check (getattr_required_scope tool),
           Create_tool_context, Tool_execute tool_name tool_args]"
    using m p n a by (simp add: fst_handle_tools_call)
next
  assume "Create_tool_context \<in> set (fst (handle self r))
            \<or> (\<exists>x y. Tool_execute x y \<in> set (fst (handle self r)))"
  then have t: "Create_tool_context \<in> set (fst (handle_tools_call self params))
            \<or> (\<exists>x y. Tool_execute x y \<in> set (fst (handle_tools_call self params)))"
    using m p by (simp add: fst_handle_tools_call)
  show "truthy tool_name"
    using t handle_tools_call_trace [of self params] n by blast
  show "\<exists>tool. get (h_tool_registry self) tool_name = Inr (Some tool)
               \<and> has_scope granted (getattr_required_scope tool)"
    using t handle_tools_call_trace [of self params] n g by blast
qed



lemma example_lookup:
  "get (h_tool_registry example_handler) (PStr ''unknown'') = Inr None"
  "get (h_tool_registry example_handler) (PStr ''server_status'') = Inr (Some status_tool)"
  "get (h_tool_registry example_handler) (PStr ''read_products'') = Inr (Some read_tool)"
  "get (h_tool_registry example_handler) (PStr ''crash'') = Inr (Some crash_tool)"
  "get (h_tool_registry example_handler) (PList xs) = Inl (Exception ''unhashable type: list'')"
  by (simp_all add: example_handler_def example_registry_def)

lemma example_scopes: "scopes (h_token_info example_handler) = [''data:read'']"
  by (simp add: example_handler_def reader_token_def)

lemma example_required:
  "getattr_required_scope status_tool = ''*''"
  "getattr_required_scope read_tool = ''data:read''"
  "getattr_required_scope crash_tool = ''data:read''"
  by (simp_all add: getattr_required_scope_def status_tool_def read_tool_def crash_tool_def)

lemma example_has_scope:
  "\<not> has_scope [''data:read''] ''*''"
  "has_scope [''data:read''] ''data:read''"
  by (simp_all add: has_scope_def)

lemma call_request_simps:
  "req_method (call_request ps) = ''tools/call''"
  "req_params (call_request ps) = Some ps"
  "req_id (call_request ps) = Some (IdInt 42)"
  by (simp_all add: call_request_def)

theorem tools_call_validation_order_witness:
  "handle example_handler (call_request []) =
     ([], make_error_response (- 32602) ''Missing tool name'' PNone (Some (IdInt 42)))
   \<and> handle example_handler (call_request [(''name'', PStr ''unknown'')]) =
       ([Registry_get (PStr ''unknown'')],
        make_error_response (- 32601) ''Tool not found: unknown'' PNone (Some (IdInt 42)))
   \<and> handle example_handler (call_request [(''name'', PStr ''server_status'')]) =
       ([Registry_get (PStr ''server_status''), Scope_check ''*''],
        make_error_response (- 32002) ''Missing required scope: *''
          (PDict [(''required_scope'', PStr ''*''),
                  (''token_scopes'', PList [PStr ''data:read''])])
          (Some (IdInt 42)))
   \<and> fst (handle example_handler
             (call_request [(''name'', PStr ''read_products''), (''arguments'', PDict [])])) =
       [Registry_get (PStr ''read_products''), Scope_check ''data:read'',
        Create_tool_context, Tool_execute (PStr ''read_products'') (PDict [])]"
proof -
  note t = tools_call_validation_order
             [where self = example_handler, OF call_request_simps(1) refl refl refl refl]
  have 1: "handle example_handler (call_request []) =
     ([], make_error_response (- 32602) ''Missing tool name'' PNone (Some (IdInt 42)))"
    using t [of "[]"] by (simp add: call_request_simps)
  have 2: "handle example_handler (call_request [(''name'', PStr ''unknown'')]) =
       ([Registry_get (PStr ''unknown'')],
        make_error_response (- 32601) ''Tool not found: unknown'' PNone (Some (IdInt 42)))"
    using t [of "[(''name'', PStr ''unknown'')]"]
    by (simp add: call_request_simps dict_get_def example_lookup format_value_def)
  have 3: "handle example_handler (call_request [(''name'', PStr ''server_status'')]) =
       ([Registry_get (PStr ''server_status''), Scope_check ''*''],
        make_error_response (- 32002) ''Missing required scope: *''
          (PDict [(''required_scope'', PStr ''*''),
                  (''token_scopes'', PList [PStr ''data:read''])])
          (Some (IdInt 42)))"
    using t [of "[(''name'', PStr ''server_status'')]"]
    by (simp add: call_request_simps dict_get_def example_lookup example_scopes
          example_required example_has_scope)
  have 4: "fst (handle example_handler
             (call_request [(''name'', PStr ''read_products''), (''arguments'', PDict [])])) =
       [Registry_get (PStr ''read_products''), Scope_check ''data:read'',
        Create_tool_context, Tool_execute (PStr ''read_products'') (PDict [])]"
    using t [of "[(''name'', PStr ''read_products''), (''arguments'', PDict [])]"]
    by (simp add: call_request_simps dict_get_def example_lookup example_scopes
          example_required example_has_scope)
  from 1 2 3 4 show ?thesis by blast
qed

section \<open>The dispatcher's boundary\<close>













section \<open>Empty tool names\<close>

text \<open>
  C10. A \<^verbatim>\<open>tools/call\<close> request whose \<^verbatim>\<open>name\<close> parameter is the empty string is answered with
  code -32602, with no registry lookup and no scope check, and the answer is the one given
  when the parameters have no \<^verbatim>\<open>name\<close> key at all: the handler tests the name for truth, not
  the key for membership.
\<close>

theorem empty_name_is_missing:
  assumes "req_method r = ''tools/call''"
    and "req_params r = Some params"
    and "map_of params ''name'' = Some (PStr [])"
  shows "handle self r =
           ([], make_error_response (- 32602) ''Missing tool name'' PNone (req_id r))
         \<and> (\<forall>absent. map_of absent ''name'' = None \<longrightarrow>
                handle self (r\<lparr>req_params := Some absent\<rparr>) = handle self r)"
proof -
  have e: "\<not> truthy (dict_get params ''name'' PNone)"
    using assms(3) by (simp add: dict_get_def)
  have 1: "handle self r =
           ([], make_error_response (- 32602) ''Missing tool name'' PNone (req_id r))"
    using assms(1,2) handle_tools_call_missing [OF e, of self]
    by (simp add: handle_tools_call_dispatch)
  have 2: "handle self (r\<lparr>req_params := Some absent\<rparr>) = handle self r"
    if "map_of absent ''name'' = None" for absent
  proof -
    from that have "\<not> truthy (dict_get absent ''name'' PNone)"
      by (simp add: dict_get_def)
    from handle_tools_call_missing [OF this, of self]
    have "handle self (r\<lparr>req_params := Some absent\<rparr>) =
            ([], make_error_response (- 32602) ''Missing tool name'' PNone (req_id r))"
      using assms(1) by (simp add: handle_tools_call_dispatch)
    with 1 show ?thesis by simp
  qed
  from 1 2 show ?thesis by blast
qed

theorem empty_name_is_missing_witness:
  "handle example_handler (call_request [(''name'', PStr [])]) =
     ([], make_error_response (- 32602) ''Missing tool name'' PNone (Some (IdInt 42)))
   \<and> handle example_handler (call_request [(''arguments'', PDict [])]) =
       handle example_handler (call_request [(''name'', PStr [])])"
proof -
  have m: "map_of [(''name'', PStr [])] ''name'' = Some (PStr [])"
    by simp
  note t = empty_name_is_missing [of "call_request [(''name'', PStr [])]" _ example_handler,
             OF call_request_simps(1) call_request_simps(2) m]
  have u: "call_request [(''name'', PStr [])] \<lparr>req_params := Some [(''arguments'', PDict [])]\<rparr>
          = call_request [(''arguments'', PDict [])]"
    by (simp add: call_request_def)
  have 1: "handle example_handler (call_request [(''name'', PStr [])]) =
     ([], make_error_response (- 32602) ''Missing tool name'' PNone (Some (IdInt 42)))"
    using t by (simp add: call_request_simps)
  have 2: "handle example_handler (call_request [(''arguments'', PDict [])]) =
       handle example_handler (call_request [(''name'', PStr [])])"
    using t [THEN conjunct2, rule_format, of "[(''arguments'', PDict [])]"] u by simp
  from 1 2 show ?thesis by blast
qed

section \<open>Envelopes\<close>

lemma mcp_handler_shape:
  "\<exists>res err i. snd (mcp_handler request) =
       PDict [(''jsonrpc'', PStr ''2.0''), (''result'', res), (''error'', err), (''id'', i)]
     \<and> ((res = PNone) \<noteq> (err = PNone))"
proof -
  have d: "dump_error e = PNone \<longleftrightarrow> e = None" for e
    by (simp add: dump_error_def split: option.splits)
  have j: "resp_jsonrpc (snd (handle self r)) = ''2.0''" for self r
    by (auto simp: handle_def Let_def make_error_response_def make_success_response_def
             split: option.splits prod.splits sum.splits exn.splits)
  show ?thesis
    using handle_exactly_one
    by (auto simp: mcp_handler_def model_dump_def Let_def d j dump_error_def
             split: option.splits sum.splits)
qed

text \<open>
  C7, as the code has it. \<^verbatim>\<open>make_error_response\<close> sets the error and leaves the result unset;
  \<^verbatim>\<open>make_success_response\<close> leaves the error unset and sets the result exactly when the
  result it is given is not \<^verbatim>\<open>None\<close>. Each of the five handlers returns a dictionary. So every
  envelope the dispatcher returns has exactly one of \<^verbatim>\<open>result\<close> and \<^verbatim>\<open>error\<close> set, and every
  dictionary the endpoint sends, for the rejections it builds itself as well, holds both
  keys with exactly one of the two values not \<^verbatim>\<open>None\<close>.
\<close>

theorem envelope_exactly_one:
  "resp_result (make_error_response code message payload i) = PNone
   \<and> resp_error (make_error_response code message payload i)
       = Some \<lparr>err_code = code, err_message = message, err_data = payload\<rparr>
   \<and> resp_error (make_success_response v i) = None
   \<and> (resp_result (make_success_response v i) = PNone \<longleftrightarrow> v = PNone)
   \<and> (\<forall>h tr res. handlers m = Some h \<and> h self params = (tr, Inr res) \<longrightarrow>
          (\<exists>d. res = PDict d))
   \<and> ((resp_result (snd (handle self r)) = PNone) \<noteq> (resp_error (snd (handle self r)) = None))
   \<and> (\<exists>res err i. snd (mcp_handler request) =
          PDict [(''jsonrpc'', PStr ''2.0''), (''result'', res), (''error'', err), (''id'', i)]
        \<and> ((res = PNone) \<noteq> (err = PNone)))"
proof (intro conjI allI impI)
  show "resp_result (make_error_response code message payload i) = PNone"
    by (simp add: make_error_response_def)
  show "resp_error (make_error_response code message payload i)
       = Some \<lparr>err_code = code, err_message = message, err_data = payload\<rparr>"
    by (simp add: make_error_response_def)
  show "resp_error (make_success_response v i) = None"
    by (simp add: make_success_response_def)
  show "resp_result (make_success_response v i) = PNone \<longleftrightarrow> v = PNone"
    by (simp add: make_success_response_def)
  show "(resp_result (snd (handle self r)) = PNone) \<noteq> (resp_error (snd (handle self r)) = None)"
    by (rule handle_exactly_one)
  show "\<exists>res err i. snd (mcp_handler request) =
          PDict [(''jsonrpc'', PStr ''2.0''), (''result'', res), (''error'', err), (''id'', i)]
        \<and> ((res = PNone) \<noteq> (err = PNone))"
    by (rule mcp_handler_shape)
next
  fix h tr res
  assume "handlers m = Some h \<and> h self params = (tr, Inr res)"
  then show "\<exists>d. res = PDict d"
    using handler_result_dict [of m h self params tr res] by blast
qed

theorem envelope_exactly_one_witness:
  "(\<exists>d. PDict [(''pong'', PBool True), (''timestamp'', PStr ''2025-01-01T00:00:00'')] = PDict d)
   \<and> resp_result (snd (handle example_handler (call_request []))) = PNone
   \<and> resp_error (snd (handle example_handler (call_request []))) \<noteq> None"
proof -
  have p: "handle_ping example_handler [] =
             ([], Inr (PDict [(''pong'', PBool True),
                              (''timestamp'', PStr ''2025-01-01T00:00:00'')]))"
    by (simp add: handle_ping_def example_handler_def example_runtime_def)
  note t = envelope_exactly_one [of _ _ _ _ _ "''ping''" example_handler "[]" "call_request []"]
  have 1: "\<exists>d. PDict [(''pong'', PBool True), (''timestamp'', PStr ''2025-01-01T00:00:00'')]
               = PDict d"
    using t [THEN conjunct2, THEN conjunct2, THEN conjunct2, THEN conjunct2, THEN conjunct1,
             rule_format, of handle_ping "[]"] p
    by (simp add: handlers_simps)
  have c: "handle example_handler (call_request []) =
             ([], make_error_response (- 32602) ''Missing tool name'' PNone (Some (IdInt 42)))"
    using handle_tools_call_missing [of "[]" example_handler]
    by (simp add: handle_tools_call_dispatch call_request_simps dict_get_def)
  have 2: "resp_result (snd (handle example_handler (call_request []))) = PNone
           \<and> resp_error (snd (handle example_handler (call_request []))) \<noteq> None"
    using t [THEN conjunct2, THEN conjunct2, THEN conjunct2, THEN conjunct2, THEN conjunct2,
             THEN conjunct1] c
    by (simp add: make_error_response_def)
  from 1 2 show ?thesis by blast
qed

text \<open>
  Neither the class nor the two constructors enforce this. \<^verbatim>\<open>make_success_response\<close> given
  \<^verbatim>\<open>None\<close> builds an envelope with neither field set, \<^verbatim>\<open>JSONRPCResponse\<close> takes both fields at
  once, and \<^verbatim>\<open>model_dump\<close> writes both keys in every case.
\<close>

theorem codec_allows_neither_or_both:
  "resp_result (make_success_response PNone (Some (IdInt 1))) = PNone
   \<and> resp_error (make_success_response PNone (Some (IdInt 1))) = None
   \<and> model_dump (make_success_response PNone (Some (IdInt 1))) =
       PDict [(''jsonrpc'', PStr ''2.0''), (''result'', PNone), (''error'', PNone),
              (''id'', PInt 1)]
   \<and> model_dump \<lparr>resp_jsonrpc = ''2.0'', resp_result = PDict [],
                  resp_error = Some \<lparr>err_code = - 32603, err_message = ''Internal error: x'',
                                      err_data = PNone\<rparr>,
                  resp_id = Some (IdInt 1)\<rparr> =
       PDict [(''jsonrpc'', PStr ''2.0''), (''result'', PDict []),
              (''error'', PDict [(''code'', PInt (- 32603)),
                                 (''message'', PStr ''Internal error: x''),
                                 (''data'', PNone)]),
              (''id'', PInt 1)]"
  by (simp add: make_success_response_def model_dump_def dump_error_def dump_id_def)

section \<open>Identifiers\<close>

lemma handle_jsonrpc: "resp_jsonrpc (snd (handle self r)) = ''2.0''"
  by (auto simp: handle_def Let_def make_error_response_def make_success_response_def
           split: option.splits prod.splits sum.splits exn.splits)

lemma dump_id_None: "dump_id i = PNone \<longleftrightarrow> i = None"
  by (simp add: dump_id_def split: option.splits rpc_id.splits)

lemma mcp_handler_dispatched:
  assumes "x_api_key request = Some key" and "key \<noteq> []"
    and "validate_token request key = Some token_info"
    and "request_json request = Inr body"
    and "validate_request request body = Inr r"
  shows "\<exists>self. snd (mcp_handler request) = model_dump (snd (handle self r))"
  using assms by (auto simp: mcp_handler_def Let_def)

text \<open>
  C8. The dispatcher's envelope carries the identifier of the request it was given, whatever
  the outcome. For the endpoint: when the key is accepted, the body parses and the request
  validates, the response carries the request's id; and when the key is accepted, a response
  without id means that the body did not parse, or did not validate, or that the request
  had no id.
\<close>

theorem response_id_echo:
  "resp_id (snd (handle self r)) = req_id r
   \<and> (\<forall>key token_info body.
         x_api_key request = Some key \<and> key \<noteq> []
         \<and> validate_token request key = Some token_info
         \<and> request_json request = Inr body
         \<and> validate_request request body = Inr r \<longrightarrow>
         (\<exists>res err. snd (mcp_handler request) =
            PDict [(''jsonrpc'', PStr ''2.0''), (''result'', res), (''error'', err),
                   (''id'', dump_id (req_id r))]))
   \<and> (\<forall>key token_info res err.
         x_api_key request = Some key \<and> key \<noteq> []
         \<and> validate_token request key = Some token_info
         \<and> snd (mcp_handler request) =
             PDict [(''jsonrpc'', PStr ''2.0''), (''result'', res), (''error'', err),
                    (''id'', PNone)] \<longrightarrow>
         (\<exists>e. request_json request = Inl e)
         \<or> (\<exists>body e. request_json request = Inr body \<and> validate_request request body = Inl e)
         \<or> (\<exists>body q. request_json request = Inr body
                      \<and> validate_request request body = Inr q \<and> req_id q = None))"
proof (intro conjI allI impI)
  show "resp_id (snd (handle self r)) = req_id r"
    by (rule handle_id)
next
  fix key token_info body
  assume a: "x_api_key request = Some key \<and> key \<noteq> []
         \<and> validate_token request key = Some token_info
         \<and> request_json request = Inr body
         \<and> validate_request request body = Inr r"
  then obtain h where "snd (mcp_handler request) = model_dump (snd (handle h r))"
    using mcp_handler_dispatched [of request key token_info body r] by blast
  then show "\<exists>res err. snd (mcp_handler request) =
            PDict [(''jsonrpc'', PStr ''2.0''), (''result'', res), (''error'', err),
                   (''id'', dump_id (req_id r))]"
    by (simp add: model_dump_def handle_id handle_jsonrpc)
next
  fix key token_info res err
  assume a: "x_api_key request = Some key \<and> key \<noteq> []
         \<and> validate_token request key = Some token_info
         \<and> snd (mcp_handler request) =
             PDict [(''jsonrpc'', PStr ''2.0''), (''result'', res), (''error'', err),
                    (''id'', PNone)]"
  show "(\<exists>e. request_json request = Inl e)
         \<or> (\<exists>body e. request_json request = Inr body \<and> validate_request request body = Inl e)
         \<or> (\<exists>body q. request_json request = Inr body
                      \<and> validate_request request body = Inr q \<and> req_id q = None)"
  proof (cases "request_json request")
    case (Inl e)
    then show ?thesis by blast
  next
    case (Inr body)
    show ?thesis
    proof (cases "validate_request request body")
      case (Inl e)
      with Inr show ?thesis by blast
    next
      case q: (Inr q)
      obtain h where "snd (mcp_handler request) = model_dump (snd (handle h q))"
        using a Inr q mcp_handler_dispatched [of request key token_info body q] by blast
      with a have "dump_id (req_id q) = PNone"
        by (simp add: model_dump_def handle_id)
      then have "req_id q = None"
        by (simp add: dump_id_None)
      with Inr q show ?thesis by blast
    qed
  qed
qed

lemma ping_body_valid:
  "JSONRPCRequest_init
     (PDict [(''jsonrpc'', PStr ''2.0''), (''method'', PStr ''ping''), (''id'', PInt 42)]) =
   Inr \<lparr>req_jsonrpc = ''2.0'', req_method = ''ping'', req_params = None,
        req_id = Some (IdInt 42)\<rparr>"
  by (simp add: JSONRPCRequest_init_def field_jsonrpc_def field_method_def field_params_def
        field_id_def)

lemma example_request_simps:
  "x_api_key (example_request key body) = key"
  "validate_token (example_request key body) ''mcp_reader_key'' = Some reader_token"
  "validate_token (example_request key body) ''expired_key'' = None"
  "request_json (example_request key body) = Inr body"
  "validate_request (example_request key body) = JSONRPCRequest_init"
  by (simp_all add: example_request_def)

theorem response_id_echo_witness:
  "\<exists>res err.
     snd (mcp_handler
            (example_request (Some ''mcp_reader_key'')
               (PDict [(''jsonrpc'', PStr ''2.0''), (''method'', PStr ''ping''),
                       (''id'', PInt 42)]))) =
     PDict [(''jsonrpc'', PStr ''2.0''), (''result'', res), (''error'', err), (''id'', PInt 42)]"
  using response_id_echo
          [of example_handler
              "\<lparr>req_jsonrpc = ''2.0'', req_method = ''ping'', req_params = None,
                 req_id = Some (IdInt 42)\<rparr>"
              "example_request (Some ''mcp_reader_key'')
                 (PDict [(''jsonrpc'', PStr ''2.0''), (''method'', PStr ''ping''),
                         (''id'', PInt 42)])",
           THEN conjunct2, THEN conjunct1, rule_format,
           of "''mcp_reader_key''" reader_token
              "PDict [(''jsonrpc'', PStr ''2.0''), (''method'', PStr ''ping''),
                      (''id'', PInt 42)]"]
  by (simp add: example_request_simps ping_body_valid dump_id_def)

section \<open>Rejected credentials\<close>

text \<open>
  C4, as the code has it. A request without usable credential is answered with code -32001
  and no id, before the body is read. The message is \<^verbatim>\<open>Missing X-API-Key header\<close> when the
  header is absent or empty, and \<^verbatim>\<open>Invalid or expired API key\<close> for every key that
  \<^verbatim>\<open>validate_token\<close> rejects, whatever made it reject the key.
\<close>

theorem auth_failure_response:
  "(x_api_key request = None \<or> x_api_key request = Some [] \<longrightarrow>
      mcp_handler request =
        ([], model_dump (make_error_response (- 32001) ''Missing X-API-Key header'' PNone None)))
   \<and> (\<forall>key. x_api_key request = Some key \<and> key \<noteq> []
             \<and> validate_token request key = None \<longrightarrow>
        mcp_handler request =
          ([Validate_token key],
           model_dump (make_error_response (- 32001) ''Invalid or expired API key'' PNone None)))"
proof (intro conjI allI impI)
  assume "x_api_key request = None \<or> x_api_key request = Some []"
  then show "mcp_handler request =
        ([], model_dump (make_error_response (- 32001) ''Missing X-API-Key header'' PNone None))"
  proof
    assume "x_api_key request = None"
    then show ?thesis
      by (simp add: mcp_handler_def make_error_response_def MCP_AUTH_FAILED_def)
  next
    assume "x_api_key request = Some []"
    then show ?thesis
      by (simp add: mcp_handler_def make_error_response_def MCP_AUTH_FAILED_def)
  qed
next
  fix key
  assume "x_api_key request = Some key \<and> key \<noteq> [] \<and> validate_token request key = None"
  then show "mcp_handler request =
          ([Validate_token key],
           model_dump (make_error_response (- 32001) ''Invalid or expired API key'' PNone None))"
    by (simp add: mcp_handler_def make_error_response_def MCP_AUTH_FAILED_def)
qed

theorem auth_failure_response_witness:
  "mcp_handler (example_request None (PDict [])) =
     ([], model_dump (make_error_response (- 32001) ''Missing X-API-Key header'' PNone None))
   \<and> mcp_handler (example_request (Some ''expired_key'') (PDict [])) =
     ([Validate_token ''expired_key''],
      model_dump (make_error_response (- 32001) ''Invalid or expired API key'' PNone None))"
  using auth_failure_response [of "example_request None (PDict [])"]
    auth_failure_response [of "example_request (Some ''expired_key'') (PDict [])"]
  by (simp add: example_request_simps)

text \<open>
  The message is not the same for all causes: a request without the header and a request
  with a key that the validator rejects receive responses with different messages.
\<close>

theorem auth_failure_messages_differ:
  "x_api_key (example_request None (PDict [])) = None
   \<and> validate_token (example_request (Some ''expired_key'') (PDict [])) ''expired_key'' = None
   \<and> snd (mcp_handler (example_request None (PDict []))) =
       PDict [(''jsonrpc'', PStr ''2.0''), (''result'', PNone),
              (''error'', PDict [(''code'', PInt (- 32001)),
                                 (''message'', PStr ''Missing X-API-Key header''),
                                 (''data'', PNone)]),
              (''id'', PNone)]
   \<and> snd (mcp_handler (example_request (Some ''expired_key'') (PDict []))) =
       PDict [(''jsonrpc'', PStr ''2.0''), (''result'', PNone),
              (''error'', PDict [(''code'', PInt (- 32001)),
                                 (''message'', PStr ''Invalid or expired API key''),
                                 (''data'', PNone)]),
              (''id'', PNone)]"
  by (simp add: mcp_handler_def example_request_def model_dump_def dump_error_def dump_id_def
        MCP_AUTH_FAILED_def)

section \<open>Requests of the wrong shape\<close>

text \<open>
  C9, as the code has it. When the key is accepted and the body parses but
  \<^verbatim>\<open>JSONRPCRequest(**body)\<close> raises, the response is the error -32600 with the text of the
  exception, and it has no id.
\<close>

theorem shape_failure_response:
  assumes "x_api_key request = Some key" and "key \<noteq> []"
    and "validate_token request key = Some token_info"
    and "request_json request = Inr body"
    and "validate_request request body = Inl e"
  shows "mcp_handler request =
           ([Validate_token key],
            model_dump (make_error_response (- 32600) (''Invalid request: '' @ str_exn e)
                          PNone None))"
  using assms
  by (simp add: mcp_handler_def make_error_response_def JSONRPC_INVALID_REQUEST_def)

lemma no_method_invalid:
  "JSONRPCRequest_init (PDict [(''jsonrpc'', PStr ''2.0''), (''id'', PInt 7)]) =
     Inl (validation_error ''method'' ''Field required'')"
  by (simp add: JSONRPCRequest_init_def field_jsonrpc_def field_method_def)

theorem shape_failure_response_witness:
  "mcp_handler (example_request (Some ''mcp_reader_key'')
                  (PDict [(''jsonrpc'', PStr ''2.0''), (''id'', PInt 7)])) =
     ([Validate_token ''mcp_reader_key''],
      model_dump (make_error_response (- 32600)
                    (''Invalid request: '' @ str_exn (validation_error ''method'' ''Field required''))
                    PNone None))"
  using shape_failure_response
          [of "example_request (Some ''mcp_reader_key'')
                 (PDict [(''jsonrpc'', PStr ''2.0''), (''id'', PInt 7)])"
              "''mcp_reader_key''" reader_token
              "PDict [(''jsonrpc'', PStr ''2.0''), (''id'', PInt 7)]"
              "validation_error ''method'' ''Field required''"]
  by (simp add: example_request_simps no_method_invalid)

text \<open>
  The id of such a body is not carried over: a body with \<^verbatim>\<open>id\<close> 7 and no \<^verbatim>\<open>method\<close> is
  answered with code -32600 and no id.
\<close>

theorem shape_failure_drops_id:
  "map_of [(''jsonrpc'', PStr ''2.0''), (''id'', PInt 7)] ''id'' = Some (PInt 7)
   \<and> snd (mcp_handler (example_request (Some ''mcp_reader_key'')
                         (PDict [(''jsonrpc'', PStr ''2.0''), (''id'', PInt 7)]))) =
       PDict [(''jsonrpc'', PStr ''2.0''), (''result'', PNone),
              (''error'',
               PDict [(''code'', PInt (- 32600)),
                      (''message'',
                       PStr ''Invalid request: 1 validation error for JSONRPCRequest: method: Field required''),
                      (''data'', PNone)]),
              (''id'', PNone)]"
  by (simp add: mcp_handler_def example_request_def no_method_invalid model_dump_def
        dump_error_def dump_id_def validation_error_def JSONRPC_INVALID_REQUEST_def)


section \<open>Tools without a declared scope\<close>

lemma snd_after: "snd (after tr r) = snd r"
  by (simp add: after_def)

lemma filter_tools_result:
  "snd (filter_tools self defs acc) = Inr out \<Longrightarrow>
   out = acc @ filter (\<lambda>d. \<exists>nm tool. map_of d ''name'' = Some nm
                              \<and> get (h_tool_registry self) nm = Inr (Some tool)
                              \<and> has_scope (scopes (h_token_info self))
                                    (getattr_required_scope tool)) defs"
proof (induction defs arbitrary: acc)
  case Nil
  then show ?case by simp
next
  case (Cons d ds)
  show ?case
  proof (cases "map_of d ''name''")
    case None
    with Cons.prems show ?thesis by simp
  next
    case (Some nm)
    show ?thesis
    proof (cases "get (h_tool_registry self) nm")
      case (Inl e)
      with Some Cons.prems show ?thesis by simp
    next
      case (Inr found)
      show ?thesis
      proof (cases found)
        case None
        with Some Inr Cons.prems have "snd (filter_tools self ds acc) = Inr out"
          by (simp add: snd_after)
        from Cons.IH [OF this] Some Inr None show ?thesis by simp
      next
        case tool: (Some tool)
        show ?thesis
        proof (cases "has_scope (scopes (h_token_info self)) (getattr_required_scope tool)")
          case True
          with Some Inr tool Cons.prems
          have "snd (filter_tools self ds (acc @ [d])) = Inr out"
            by (simp add: snd_after Let_def)
          from Cons.IH [OF this] Some Inr tool True show ?thesis by simp
        next
          case False
          with Some Inr tool Cons.prems have "snd (filter_tools self ds acc) = Inr out"
            by (simp add: snd_after Let_def)
          from Cons.IH [OF this] Some Inr tool False show ?thesis by simp
        qed
      qed
    qed
  qed
qed

lemma handle_tools_list_tools:
  assumes "snd (handle_tools_list self params) = Inr (PDict [(''tools'', PList tools)])"
    and "get_mcp_definitions (h_tool_registry self) = Inr defs"
  shows "tools = map PDict
           (filter (\<lambda>d. \<exists>nm tool. map_of d ''name'' = Some nm
                              \<and> get (h_tool_registry self) nm = Inr (Some tool)
                              \<and> has_scope (scopes (h_token_info self))
                                    (getattr_required_scope tool)) defs)"
proof -
  obtain out where o: "snd (filter_tools self defs []) = Inr out" and t: "tools = map PDict out"
    using assms
    by (auto simp: handle_tools_list_def snd_after after_def split: sum.splits prod.splits)
  from filter_tools_result [OF o] t show ?thesis by simp
qed

lemma handle_tools_list_dispatch:
  assumes "req_method r = ''tools/list''"
    and "resp_result (snd (handle self r)) = PDict [(''tools'', PList tools)]"
  shows "\<exists>params. snd (handle_tools_list self params) = Inr (PDict [(''tools'', PList tools)])"
proof -
  let ?p = "case req_params r of None \<Rightarrow> [] | Some p \<Rightarrow> if p = [] then [] else p"
  obtain tr res where h: "handle_tools_list self ?p = (tr, res)"
    by (cases "handle_tools_list self ?p") auto
  have "res = Inr (PDict [(''tools'', PList tools)])"
    using assms h unfolding handle_def Let_def
    by (cases res)
       (auto simp: handlers_simps make_error_response_def make_success_response_def
             split: exn.splits)
  with h show ?thesis by (metis snd_conv)
qed

lemma undeclared_has_scope:
  "required_scope tool = None \<Longrightarrow>
   has_scope granted (getattr_required_scope tool) \<longleftrightarrow> ''*'' \<in> set granted"
  by (simp add: getattr_required_scope_def has_scope_def)

text \<open>
  C3, as the code has it. A tool that declares no \<^verbatim>\<open>required_scope\<close> is given the required
  scope \<^verbatim>\<open>*\<close>, which only a token holding \<^verbatim>\<open>*\<close> satisfies. With such a token \<^verbatim>\<open>tools/call\<close> on the
  tool passes the scope check and executes it, and \<^verbatim>\<open>tools/list\<close> shows its definition; with
  any other token \<^verbatim>\<open>tools/call\<close> is answered with code -32002 and \<^verbatim>\<open>tools/list\<close> leaves the
  definition out.
\<close>

theorem undeclared_scope_requires_wildcard:
  assumes u: "required_scope tool = None"
  shows
    "(\<forall>r params.
        req_method r = ''tools/call'' \<and> req_params r = Some params
        \<and> truthy (dict_get params ''name'' PNone)
        \<and> get (h_tool_registry self) (dict_get params ''name'' PNone) = Inr (Some tool) \<longrightarrow>
        (if ''*'' \<in> set (scopes (h_token_info self))
         then resp_error (snd (handle self r)) = None
              \<and> Tool_execute (dict_get params ''name'' PNone)
                   (dict_get params ''arguments'' (PDict [])) \<in> set (fst (handle self r))
         else handle self r =
                ([Registry_get (dict_get params ''name'' PNone), Scope_check ''*''],
                 make_error_response (- 32002) ''Missing required scope: *''
                   (PDict [(''required_scope'', PStr ''*''),
                           (''token_scopes'', PList (map PStr (scopes (h_token_info self))))])
                   (req_id r))))
     \<and> (\<forall>r defs tool_def nm tools.
          req_method r = ''tools/list''
          \<and> get_mcp_definitions (h_tool_registry self) = Inr defs
          \<and> tool_def \<in> set defs \<and> map_of tool_def ''name'' = Some nm
          \<and> get (h_tool_registry self) nm = Inr (Some tool)
          \<and> resp_result (snd (handle self r)) = PDict [(''tools'', PList tools)] \<longrightarrow>
          (PDict tool_def \<in> set tools \<longleftrightarrow> ''*'' \<in> set (scopes (h_token_info self))))"
proof (intro conjI allI impI)
  fix r :: JSONRPCRequest and params
  assume a: "req_method r = ''tools/call'' \<and> req_params r = Some params
        \<and> truthy (dict_get params ''name'' PNone)
        \<and> get (h_tool_registry self) (dict_get params ''name'' PNone) = Inr (Some tool)"
  have s: "getattr_required_scope tool = ''*''"
    using u by (simp add: getattr_required_scope_def)
  show "if ''*'' \<in> set (scopes (h_token_info self))
         then resp_error (snd (handle self r)) = None
              \<and> Tool_execute (dict_get params ''name'' PNone)
                   (dict_get params ''arguments'' (PDict [])) \<in> set (fst (handle self r))
         else handle self r =
                ([Registry_get (dict_get params ''name'' PNone), Scope_check ''*''],
                 make_error_response (- 32002) ''Missing required scope: *''
                   (PDict [(''required_scope'', PStr ''*''),
                           (''token_scopes'', PList (map PStr (scopes (h_token_info self))))])
                   (req_id r))"
  proof (cases "''*'' \<in> set (scopes (h_token_info self))")
    case True
    then have "has_scope (scopes (h_token_info self)) (getattr_required_scope tool)"
      using undeclared_has_scope [OF u] by simp
    with a have "handle_tools_call self params =
       ([Registry_get (dict_get params ''name'' PNone), Scope_check (getattr_required_scope tool),
         Create_tool_context,
         Tool_execute (dict_get params ''name'' PNone) (dict_get params ''arguments'' (PDict []))],
        Inr (execute_tool self tool (create_tool_context self)
               (dict_get params ''arguments'' (PDict []))))"
      by (simp add: handle_tools_call_run)
    with a True show ?thesis
      by (simp add: handle_tools_call_dispatch make_success_response_def)
  next
    case False
    then have "\<not> has_scope (scopes (h_token_info self)) (getattr_required_scope tool)"
      using undeclared_has_scope [OF u] by simp
    with a have "handle_tools_call self params =
       ([Registry_get (dict_get params ''name'' PNone), Scope_check (getattr_required_scope tool)],
        Inl (MCPError (- 32002)
             (''Missing required scope: '' @ getattr_required_scope tool)
             (PDict [(''required_scope'', PStr (getattr_required_scope tool)),
                     (''token_scopes'', PList (map PStr (scopes (h_token_info self))))])))"
      by (simp add: handle_tools_call_scope)
    with a False s show ?thesis
      by (simp add: handle_tools_call_dispatch)
  qed
next
  fix r :: JSONRPCRequest and defs tool_def nm tools
  assume a: "req_method r = ''tools/list''
          \<and> get_mcp_definitions (h_tool_registry self) = Inr defs
          \<and> tool_def \<in> set defs \<and> map_of tool_def ''name'' = Some nm
          \<and> get (h_tool_registry self) nm = Inr (Some tool)
          \<and> resp_result (snd (handle self r)) = PDict [(''tools'', PList tools)]"
  then obtain params
    where "snd (handle_tools_list self params) = Inr (PDict [(''tools'', PList tools)])"
    using handle_tools_list_dispatch by blast
  from handle_tools_list_tools [OF this] a
  have "tools = map PDict
           (filter (\<lambda>d. \<exists>nm tool. map_of d ''name'' = Some nm
                              \<and> get (h_tool_registry self) nm = Inr (Some tool)
                              \<and> has_scope (scopes (h_token_info self))
                                    (getattr_required_scope tool)) defs)"
    by simp
  then have "PDict tool_def \<in> set tools \<longleftrightarrow>
               has_scope (scopes (h_token_info self)) (getattr_required_scope tool)"
    using a by auto
  then show "PDict tool_def \<in> set tools \<longleftrightarrow> ''*'' \<in> set (scopes (h_token_info self))"
    using undeclared_has_scope [OF u] by simp
qed


lemma example_tools_list:
  "handle example_handler
     \<lparr>req_jsonrpc = ''2.0'', req_method = ''tools/list'', req_params = None,
      req_id = Some (IdInt 1)\<rparr> =
   ([Get_mcp_definitions,
     Registry_get (PStr ''read_products''), Scope_check ''data:read'',
     Registry_get (PStr ''server_status''), Scope_check ''*'',
     Registry_get (PStr ''crash''), Scope_check ''data:read''],
    make_success_response
      (PDict [(''tools'',
               PList [PDict [(''name'', PStr ''read_products''),
                             (''description'', PStr ''List data products'')],
                      PDict [(''name'', PStr ''crash''),
                             (''description'', PStr ''Always fails'')]])])
      (Some (IdInt 1)))"
proof -
  have r: "get_mcp_definitions (h_tool_registry example_handler) = Inr example_definitions"
    by (simp add: example_handler_def example_registry_def)
  have f: "filter_tools example_handler example_definitions [] =
     ([Registry_get (PStr ''read_products''), Scope_check ''data:read'',
       Registry_get (PStr ''server_status''), Scope_check ''*'',
       Registry_get (PStr ''crash''), Scope_check ''data:read''],
      Inr [[(''name'', PStr ''read_products''), (''description'', PStr ''List data products'')],
           [(''name'', PStr ''crash''), (''description'', PStr ''Always fails'')]])"
    by (simp add: example_definitions_def example_lookup example_scopes example_required
          example_has_scope after_def Let_def)
  have "handle_tools_list example_handler [] =
     ([Get_mcp_definitions,
       Registry_get (PStr ''read_products''), Scope_check ''data:read'',
       Registry_get (PStr ''server_status''), Scope_check ''*'',
       Registry_get (PStr ''crash''), Scope_check ''data:read''],
      Inr (PDict [(''tools'',
               PList [PDict [(''name'', PStr ''read_products''),
                             (''description'', PStr ''List data products'')],
                      PDict [(''name'', PStr ''crash''),
                             (''description'', PStr ''Always fails'')]])]))"
    by (simp add: handle_tools_list_def r f after_def)
  then show ?thesis
    by (simp add: handle_def handlers_simps)
qed

theorem undeclared_scope_requires_wildcard_witness:
  "handle example_handler (call_request [(''name'', PStr ''server_status'')]) =
     ([Registry_get (PStr ''server_status''), Scope_check ''*''],
      make_error_response (- 32002) ''Missing required scope: *''
        (PDict [(''required_scope'', PStr ''*''),
                (''token_scopes'', PList [PStr ''data:read''])])
        (Some (IdInt 42)))
   \<and> PDict [(''name'', PStr ''server_status''), (''description'', PStr ''Report status'')]
       \<notin> set [PDict [(''name'', PStr ''read_products''),
                      (''description'', PStr ''List data products'')],
                PDict [(''name'', PStr ''crash''), (''description'', PStr ''Always fails'')]]"
proof -
  have u: "required_scope status_tool = None"
    by (simp add: status_tool_def)
  note t = undeclared_scope_requires_wildcard [OF u, of example_handler]
  have 1: "handle example_handler (call_request [(''name'', PStr ''server_status'')]) =
     ([Registry_get (PStr ''server_status''), Scope_check ''*''],
      make_error_response (- 32002) ''Missing required scope: *''
        (PDict [(''required_scope'', PStr ''*''),
                (''token_scopes'', PList [PStr ''data:read''])])
        (Some (IdInt 42)))"
    using t [THEN conjunct1, rule_format,
             of "call_request [(''name'', PStr ''server_status'')]"
                "[(''name'', PStr ''server_status'')]"]
    by (simp add: call_request_simps dict_get_def example_lookup example_scopes)
  have d: "get_mcp_definitions (h_tool_registry example_handler) = Inr example_definitions"
    by (simp add: example_handler_def example_registry_def)
  have 2: "PDict [(''name'', PStr ''server_status''), (''description'', PStr ''Report status'')]
       \<notin> set [PDict [(''name'', PStr ''read_products''),
                      (''description'', PStr ''List data products'')],
                PDict [(''name'', PStr ''crash''), (''description'', PStr ''Always fails'')]]"
    using t [THEN conjunct2, rule_format,
             of "\<lparr>req_jsonrpc = ''2.0'', req_method = ''tools/list'', req_params = None,
                   req_id = Some (IdInt 1)\<rparr>"
                example_definitions
                "[(''name'', PStr ''server_status''), (''description'', PStr ''Report status'')]"
                "PStr ''server_status''"
                "[PDict [(''name'', PStr ''read_products''),
                         (''description'', PStr ''List data products'')],
                  PDict [(''name'', PStr ''crash''), (''description'', PStr ''Always fails'')]]"]
      d example_tools_list
    by (simp add: example_lookup example_scopes example_definitions_def
          make_success_response_def)
  from 1 2 show ?thesis by blast
qed

text \<open>
  The tool is not open to every token: for a token holding only \<^verbatim>\<open>data:read\<close>, the tool
  without declared scope is missing from \<^verbatim>\<open>tools/list\<close> and \<^verbatim>\<open>tools/call\<close> on it is refused
  with code -32002.
\<close>

theorem undeclared_scope_not_open:
  "required_scope status_tool = None
   \<and> get (h_tool_registry example_handler) (PStr ''server_status'') = Inr (Some status_tool)
   \<and> scopes (h_token_info example_handler) = [''data:read'']
   \<and> snd (handle example_handler
            \<lparr>req_jsonrpc = ''2.0'', req_method = ''tools/list'', req_params = None,
             req_id = Some (IdInt 1)\<rparr>) =
       make_success_response
         (PDict [(''tools'',
                  PList [PDict [(''name'', PStr ''read_products''),
                                (''description'', PStr ''List data products'')],
                         PDict [(''name'', PStr ''crash''),
                                (''description'', PStr ''Always fails'')]])])
         (Some (IdInt 1))
   \<and> snd (handle example_handler (call_request [(''name'', PStr ''server_status'')])) =
       make_error_response (- 32002) ''Missing required scope: *''
         (PDict [(''required_scope'', PStr ''*''),
                 (''token_scopes'', PList [PStr ''data:read''])])
         (Some (IdInt 42))"
proof -
  have c: "handle_tools_call example_handler [(''name'', PStr ''server_status'')] =
       ([Registry_get (PStr ''server_status''), Scope_check ''*''],
        Inl (MCPError (- 32002) ''Missing required scope: *''
               (PDict [(''required_scope'', PStr ''*''),
                       (''token_scopes'', PList [PStr ''data:read''])])))"
    by (simp add: handle_tools_call_def Let_def dict_get_def example_lookup example_scopes
          example_required example_has_scope MCP_AUTH_MISSING_SCOPE_def)
  have "snd (handle example_handler (call_request [(''name'', PStr ''server_status'')])) =
       make_error_response (- 32002) ''Missing required scope: *''
         (PDict [(''required_scope'', PStr ''*''),
                 (''token_scopes'', PList [PStr ''data:read''])])
         (Some (IdInt 42))"
    using c by (simp add: handle_tools_call_dispatch call_request_simps)
  then show ?thesis
    by (simp add: example_tools_list example_lookup example_scopes status_tool_def)
qed

end
